theory Spec2Isabelle
  imports Main "HOL-Library.Sublist"
begin

section \<open>Prompt message entities (dify\_plugin/entities/model/message.py)\<close>

subsection \<open>Errors\<close>

text \<open>
  The module raises two kinds of exception. \<open>value_of\<close> raises Python's
  \<^verbatim>\<open>ValueError\<close> with a message. Every model class derives from pydantic's
  \<^verbatim>\<open>BaseModel\<close>, whose constructor raises a \<^verbatim>\<open>ValidationError\<close> carrying the
  name of the class and, for every offending field in declaration order, the field and
  the kind of the error.
\<close>

datatype error_type = missing | string_type | literal_error | enum_error | value_error

datatype error =
    ValueError string
  | ValidationError string "(string \<times> error_type) list"

subsection \<open>Roles\<close>

datatype PromptMessageRole = SYSTEM | USER | ASSISTANT | TOOL

text \<open>The \<^verbatim>\<open>.value\<close> attribute of a member.\<close>

fun role_value :: "PromptMessageRole \<Rightarrow> string" where
  "role_value SYSTEM = ''system''"
| "role_value USER = ''user''"
| "role_value ASSISTANT = ''assistant''"
| "role_value TOOL = ''tool''"

text \<open>Iterating over the enumeration class yields its members in definition order.\<close>

definition PromptMessageRole_members :: "PromptMessageRole list" where
  "PromptMessageRole_members = [SYSTEM, USER, ASSISTANT, TOOL]"

text \<open>
  \<^verbatim>\<open>for mode in cls: if mode.value == value: return mode\<close>, and the
  \<^verbatim>\<open>raise ValueError(f"invalid prompt message type value {value}")\<close> after the loop.
\<close>

fun value_of_loop :: "PromptMessageRole list \<Rightarrow> string \<Rightarrow> error + PromptMessageRole" where
  "value_of_loop [] v = Inl (ValueError (''invalid prompt message type value '' @ v))"
| "value_of_loop (mode # rest) v =
     (if role_value mode = v then Inr mode else value_of_loop rest v)"

definition value_of :: "string \<Rightarrow> error + PromptMessageRole" where
  "value_of v = value_of_loop PromptMessageRole_members v"

subsection \<open>Untyped input\<close>

text \<open>
  Values that reach the constructors from a decoded payload: \<^verbatim>\<open>None\<close>, booleans,
  integers and strings. A \<^verbatim>\<open>dict\<close> with string keys is a map; \<^verbatim>\<open>d.get(k)\<close> is \<open>d k\<close>.
\<close>

datatype py_value = PyNone | PyBool bool | PyInt int | PyStr string

type_synonym py_dict = "string \<rightharpoonup> py_value"





text \<open>
  How pydantic validates one field of a model from the keyword arguments: a key that is
  absent takes the field's default, and is the error \<open>missing\<close> when the field has none
  (\<^verbatim>\<open>Field(default=...)\<close> or no default at all); a \<^verbatim>\<open>str\<close> field accepts a string
  only; an enumeration field accepts the value of a member. Keys that name no field
  are ignored.
\<close>

fun validate_str :: "py_value option \<Rightarrow> string option \<Rightarrow> error_type + string" where
  "validate_str None None = Inl missing"
| "validate_str None (Some dflt) = Inr dflt"
| "validate_str (Some (PyStr s)) dflt = Inr s"
| "validate_str (Some v) dflt = Inl string_type"

text \<open>The errors of one field, as the entry of the \<^verbatim>\<open>ValidationError\<close>.\<close>

definition field_errors :: "string \<Rightarrow> error_type + 'a \<Rightarrow> (string \<times> error_type) list" where
  "field_errors f r = (case r of Inl e \<Rightarrow> [(f, e)] | Inr x \<Rightarrow> [])"

subsection \<open>Content variants\<close>

datatype PromptMessageContentType = TEXT | IMAGE | AUDIO | VIDEO | DOCUMENT

fun content_type_value :: "PromptMessageContentType \<Rightarrow> string" where
  "content_type_value TEXT = ''text''"
| "content_type_value IMAGE = ''image''"
| "content_type_value AUDIO = ''audio''"
| "content_type_value VIDEO = ''video''"
| "content_type_value DOCUMENT = ''document''"

text \<open>
  The field \<^verbatim>\<open>type: Literal[PromptMessageContentType.X] = PromptMessageContentType.X\<close>.
  \<^verbatim>\<open>PromptMessageContentType\<close> is a plain \<^verbatim>\<open>Enum\<close>, so a member is equal to
  no string, its own value included: the literal accepts the member alone, and every
  value of a decoded payload that is passed for \<^verbatim>\<open>type\<close> is the error
  \<open>literal_error\<close>. A key that is absent takes the default.
\<close>

fun validate_literal ::
  "PromptMessageContentType \<Rightarrow> py_value option \<Rightarrow> error_type + PromptMessageContentType" where
  "validate_literal k None = Inr k"
| "validate_literal k (Some v) = Inl literal_error"

text \<open>
  \<^verbatim>\<open>TextPromptMessageContent\<close>: the field \<^verbatim>\<open>type\<close> is fixed by its \<^verbatim>\<open>Literal\<close>
  annotation, so the record keeps \<^verbatim>\<open>data\<close> only (named \<open>text_data\<close> here, as \<open>data\<close>
  below is the property of the multi-modal classes).
\<close>

record TextPromptMessageContent =
  text_data :: string

record MultiModalPromptMessageContent =
  format :: string
  base64_data :: string
  url :: string
  mime_type :: string

text \<open>
  The property \<^verbatim>\<open>data\<close>:
  \<^verbatim>\<open>return self.url or f"data:{self.mime_type};base64,{self.base64_data}"\<close>.
  Python's \<^verbatim>\<open>or\<close> yields its left operand when that is truthy, for a string when it
  is not empty. The property belongs to every subclass, hence the record scheme.
\<close>

definition data :: "'a MultiModalPromptMessageContent_scheme \<Rightarrow> string" where
  "data self =
     (if url self \<noteq> [] then url self
      else ''data:'' @ mime_type self @ '';base64,'' @ base64_data self)"

datatype DETAIL = LOW | HIGH

fun detail_value :: "DETAIL \<Rightarrow> string" where
  "detail_value LOW = ''low''"
| "detail_value HIGH = ''high''"

fun validate_detail :: "py_value option \<Rightarrow> error_type + DETAIL" where
  "validate_detail None = Inr LOW"
| "validate_detail (Some (PyStr s)) =
     (if s = detail_value LOW then Inr LOW
      else if s = detail_value HIGH then Inr HIGH else Inl enum_error)"
| "validate_detail (Some v) = Inl enum_error"

record ImagePromptMessageContent = MultiModalPromptMessageContent +
  detail :: DETAIL

text \<open>
  The union \<^verbatim>\<open>PromptMessageContentUnionTypes\<close>; the constructor is the discriminator
  \<^verbatim>\<open>type\<close>.
\<close>

datatype PromptMessageContent =
    TextContent TextPromptMessageContent
  | ImageContent ImagePromptMessageContent
  | DocumentContent MultiModalPromptMessageContent
  | AudioContent MultiModalPromptMessageContent
  | VideoContent MultiModalPromptMessageContent

fun content_type :: "PromptMessageContent \<Rightarrow> PromptMessageContentType" where
  "content_type (TextContent c) = TEXT"
| "content_type (ImageContent c) = IMAGE"
| "content_type (DocumentContent c) = DOCUMENT"
| "content_type (AudioContent c) = AUDIO"
| "content_type (VideoContent c) = VIDEO"

text \<open>
  The constructors called with the keywords of a dict, \<^verbatim>\<open>Cls(**content)\<close>. The fields
  are validated in declaration order, those of the base class first; the construction
  fails when any field does, with every field's error.
\<close>

definition TextPromptMessageContent_init :: "py_dict \<Rightarrow> error + TextPromptMessageContent" where
  "TextPromptMessageContent_init kw =
     (let t = validate_literal TEXT (kw ''type'');
          d = validate_str (kw ''data'') None
      in case (t, d) of
           (Inr t', Inr d') \<Rightarrow> Inr \<lparr>text_data = d'\<rparr>
         | _ \<Rightarrow> Inl (ValidationError ''TextPromptMessageContent''
                  (field_errors ''type'' t @ field_errors ''data'' d)))"

text \<open>
  The four fields of \<^verbatim>\<open>MultiModalPromptMessageContent\<close> and the \<^verbatim>\<open>type\<close> of the
  subclass \<open>k\<close> named \<open>cls\<close>; shared by the document, audio and video classes, which
  add nothing else.
\<close>

definition MultiModalPromptMessageContent_init ::
  "string \<Rightarrow> PromptMessageContentType \<Rightarrow> py_dict \<Rightarrow> error + MultiModalPromptMessageContent" where
  "MultiModalPromptMessageContent_init cls k kw =
     (let f = validate_str (kw ''format'') None;
          b = validate_str (kw ''base64_data'') (Some '''');
          u = validate_str (kw ''url'') (Some '''');
          m = validate_str (kw ''mime_type'') None;
          t = validate_literal k (kw ''type'')
      in case (f, b, u, m, t) of
           (Inr f', Inr b', Inr u', Inr m', Inr t') \<Rightarrow>
             Inr \<lparr>format = f', base64_data = b', url = u', mime_type = m'\<rparr>
         | _ \<Rightarrow> Inl (ValidationError cls
                  (field_errors ''format'' f @ field_errors ''base64_data'' b @
                   field_errors ''url'' u @ field_errors ''mime_type'' m @
                   field_errors ''type'' t)))"

definition DocumentPromptMessageContent_init :: "py_dict \<Rightarrow> error + MultiModalPromptMessageContent" where
  "DocumentPromptMessageContent_init =
     MultiModalPromptMessageContent_init ''DocumentPromptMessageContent'' DOCUMENT"

definition AudioPromptMessageContent_init :: "py_dict \<Rightarrow> error + MultiModalPromptMessageContent" where
  "AudioPromptMessageContent_init =
     MultiModalPromptMessageContent_init ''AudioPromptMessageContent'' AUDIO"

definition VideoPromptMessageContent_init :: "py_dict \<Rightarrow> error + MultiModalPromptMessageContent" where
  "VideoPromptMessageContent_init =
     MultiModalPromptMessageContent_init ''VideoPromptMessageContent'' VIDEO"

definition ImagePromptMessageContent_init :: "py_dict \<Rightarrow> error + ImagePromptMessageContent" where
  "ImagePromptMessageContent_init kw =
     (let f = validate_str (kw ''format'') None;
          b = validate_str (kw ''base64_data'') (Some '''');
          u = validate_str (kw ''url'') (Some '''');
          m = validate_str (kw ''mime_type'') None;
          t = validate_literal IMAGE (kw ''type'');
          dt = validate_detail (kw ''detail'')
      in case (f, b, u, m, t, dt) of
           (Inr f', Inr b', Inr u', Inr m', Inr t', Inr dt') \<Rightarrow>
             Inr \<lparr>format = f', base64_data = b', url = u', mime_type = m', detail = dt'\<rparr>
         | _ \<Rightarrow> Inl (ValidationError ''ImagePromptMessageContent''
                  (field_errors ''format'' f @ field_errors ''base64_data'' b @
                   field_errors ''url'' u @ field_errors ''mime_type'' m @
                   field_errors ''type'' t @ field_errors ''detail'' dt)))"

subsection \<open>Prompt messages\<close>

text \<open>
  The field \<^verbatim>\<open>content: Optional[str | list[PromptMessageContentUnionTypes]]\<close>: \<open>None\<close>
  is Python's \<^verbatim>\<open>None\<close>.
\<close>

datatype content_value = StrContent string | ListContent "PromptMessageContent list"

record PromptMessage =
  role :: PromptMessageRole
  content :: "content_value option"
  name :: "string option"

text \<open>
  \<^verbatim>\<open>return not self.content\<close>: \<^verbatim>\<open>None\<close>, the empty string and the empty list are the
  falsy values of the field.
\<close>

fun truthy :: "content_value option \<Rightarrow> bool" where
  "truthy None = False"
| "truthy (Some (StrContent s)) = (s \<noteq> [])"
| "truthy (Some (ListContent xs)) = (xs \<noteq> [])"

definition PromptMessage_is_empty :: "'a PromptMessage_scheme \<Rightarrow> bool" where
  "PromptMessage_is_empty self = (\<not> truthy (content self))"

text \<open>
  The argument of the validator \<^verbatim>\<open>transform_content\<close>:
  \<^verbatim>\<open>list[dict] | Sequence[PromptMessageContent] | str | None\<close>. An element of a
  sequence is a typed content object or a dict.
\<close>

datatype content_item = Typed PromptMessageContent | Untyped py_dict

datatype raw_content = RawNone | RawStr string | RawSeq "content_item list"

text \<open>
  The loop of \<^verbatim>\<open>transform_content\<close>, with the list \<^verbatim>\<open>result\<close> as accumulator. A typed
  element is appended as it is (\<^verbatim>\<open>continue\<close>); for a dict the chain of \<^verbatim>\<open>if/elif\<close>
  compares \<^verbatim>\<open>content.get("type")\<close> with the five values in the order text, image,
  document, audio, video and appends the object built by the matching class; the chain
  has no \<^verbatim>\<open>else\<close>. An exception of a constructor leaves the loop.
\<close>

fun transform_loop ::
  "content_item list \<Rightarrow> PromptMessageContent list \<Rightarrow> error + PromptMessageContent list" where
  "transform_loop [] result = Inr result"
| "transform_loop (Typed c # rest) result = transform_loop rest (result @ [c])"
| "transform_loop (Untyped kw # rest) result =
     (if kw ''type'' = Some (PyStr (content_type_value TEXT)) then
        (case TextPromptMessageContent_init kw of
           Inl e \<Rightarrow> Inl e
         | Inr c \<Rightarrow> transform_loop rest (result @ [TextContent c]))
      else if kw ''type'' = Some (PyStr (content_type_value IMAGE)) then
        (case ImagePromptMessageContent_init kw of
           Inl e \<Rightarrow> Inl e
         | Inr c \<Rightarrow> transform_loop rest (result @ [ImageContent c]))
      else if kw ''type'' = Some (PyStr (content_type_value DOCUMENT)) then
        (case DocumentPromptMessageContent_init kw of
           Inl e \<Rightarrow> Inl e
         | Inr c \<Rightarrow> transform_loop rest (result @ [DocumentContent c]))
      else if kw ''type'' = Some (PyStr (content_type_value AUDIO)) then
        (case AudioPromptMessageContent_init kw of
           Inl e \<Rightarrow> Inl e
         | Inr c \<Rightarrow> transform_loop rest (result @ [AudioContent c]))
      else if kw ''type'' = Some (PyStr (content_type_value VIDEO)) then
        (case VideoPromptMessageContent_init kw of
           Inl e \<Rightarrow> Inl e
         | Inr c \<Rightarrow> transform_loop rest (result @ [VideoContent c]))
      else transform_loop rest result)"

text \<open>
  \<^verbatim>\<open>if isinstance(value, str): return value\<close>; otherwise the loop runs over
  \<^verbatim>\<open>value or []\<close>, which is the empty list for \<^verbatim>\<open>None\<close>, from \<^verbatim>\<open>result = []\<close>.
\<close>

definition transform_content :: "raw_content \<Rightarrow> error + content_value" where
  "transform_content value =
     (case value of
        RawStr s \<Rightarrow> Inr (StrContent s)
      | RawNone \<Rightarrow> map_sum id ListContent (transform_loop [] [])
      | RawSeq xs \<Rightarrow> map_sum id ListContent (transform_loop xs []))"

text \<open>
  A keyword argument of a constructor is \<open>None\<close> when the caller leaves it out and
  \<open>Some v\<close> when the caller passes \<open>v\<close>. The validator of \<^verbatim>\<open>content\<close> runs in mode
  \<^verbatim>\<open>before\<close> on a value that is passed, \<^verbatim>\<open>None\<close> included; a field that is left out
  takes its default (\<^verbatim>\<open>None\<close>) and the validator does not run. A
  \<^verbatim>\<open>ValidationError\<close> that a content class raises inside the validator becomes the
  errors of the field \<^verbatim>\<open>content\<close> of the message: each keeps its kind, and its
  location is the field of the content class under \<^verbatim>\<open>content\<close>. Any other
  \<^verbatim>\<open>ValueError\<close> is the error \<open>value_error\<close> of the field.
\<close>

definition validator_errors :: "error \<Rightarrow> (string \<times> error_type) list" where
  "validator_errors e =
     (case e of
        ValidationError cls errs \<Rightarrow> map (\<lambda>(f, t). (''content.'' @ f, t)) errs
      | ValueError msg \<Rightarrow> [(''content'', value_error)])"

definition content_field ::
  "raw_content option \<Rightarrow> (string \<times> error_type) list + content_value option" where
  "content_field arg =
     (case arg of
        None \<Rightarrow> Inr None
      | Some value \<Rightarrow>
          (case transform_content value of
             Inl e \<Rightarrow> Inl (validator_errors e)
           | Inr c \<Rightarrow> Inr (Some c)))"

text \<open>
  \<^verbatim>\<open>role: PromptMessageRole = PromptMessageRole.USER\<close> and its siblings declare a default
  of the field: the role a caller passes is the field's value.
\<close>

definition role_field :: "PromptMessageRole \<Rightarrow> PromptMessageRole option \<Rightarrow> PromptMessageRole" where
  "role_field dflt arg = (case arg of None \<Rightarrow> dflt | Some r \<Rightarrow> r)"

definition UserPromptMessage_init ::
  "PromptMessageRole option \<Rightarrow> raw_content option \<Rightarrow> string option \<Rightarrow> error + PromptMessage" where
  "UserPromptMessage_init role_arg content_arg name_arg =
     (case content_field content_arg of
        Inl errs \<Rightarrow> Inl (ValidationError ''UserPromptMessage'' errs)
      | Inr c \<Rightarrow> Inr \<lparr>role = role_field USER role_arg, content = c, name = name_arg\<rparr>)"

definition SystemPromptMessage_init ::
  "PromptMessageRole option \<Rightarrow> raw_content option \<Rightarrow> string option \<Rightarrow> error + PromptMessage" where
  "SystemPromptMessage_init role_arg content_arg name_arg =
     (case content_field content_arg of
        Inl errs \<Rightarrow> Inl (ValidationError ''SystemPromptMessage'' errs)
      | Inr c \<Rightarrow> Inr \<lparr>role = role_field SYSTEM role_arg, content = c, name = name_arg\<rparr>)"

subsection \<open>Assistant messages and tool calls\<close>

record ToolCallFunction =
  function_name :: string
  arguments :: string

text \<open>
  \<^verbatim>\<open>ToolCall\<close> has the fields \<^verbatim>\<open>id\<close>, \<^verbatim>\<open>type\<close> and \<^verbatim>\<open>function\<close>, prefixed here since
  \<open>id\<close> and \<open>function\<close> are taken.
\<close>

record ToolCall =
  tool_call_ident :: string
  tool_call_type :: string
  tool_call_function :: ToolCallFunction


record AssistantPromptMessage = PromptMessage +
  tool_calls :: "ToolCall list"

text \<open>
  \<^verbatim>\<open>return not (not super().is_empty() and not self.tool_calls)\<close>; a list is falsy when
  it is empty.
\<close>

definition AssistantPromptMessage_is_empty :: "'a AssistantPromptMessage_scheme \<Rightarrow> bool" where
  "AssistantPromptMessage_is_empty self =
     (\<not> (\<not> PromptMessage_is_empty self \<and> \<not> (tool_calls self \<noteq> [])))"

definition AssistantPromptMessage_init ::
  "PromptMessageRole option \<Rightarrow> raw_content option \<Rightarrow> string option \<Rightarrow> ToolCall list option \<Rightarrow>
   error + AssistantPromptMessage" where
  "AssistantPromptMessage_init role_arg content_arg name_arg tool_calls_arg =
     (case content_field content_arg of
        Inl errs \<Rightarrow> Inl (ValidationError ''AssistantPromptMessage'' errs)
      | Inr c \<Rightarrow>
          Inr \<lparr>role = role_field ASSISTANT role_arg, content = c, name = name_arg,
               tool_calls = (case tool_calls_arg of None \<Rightarrow> [] | Some tcs \<Rightarrow> tcs)\<rparr>)"

subsection \<open>Tool messages\<close>

record ToolPromptMessage = PromptMessage +
  tool_call_id :: string

text \<open>
  \<^verbatim>\<open>return not (not super().is_empty() and not self.tool_call_id)\<close>; a string is falsy
  when it is empty.
\<close>

definition ToolPromptMessage_is_empty :: "'a ToolPromptMessage_scheme \<Rightarrow> bool" where
  "ToolPromptMessage_is_empty self =
     (\<not> (\<not> PromptMessage_is_empty self \<and> \<not> (tool_call_id self \<noteq> [])))"

text \<open>
  \<^verbatim>\<open>tool_call_id: str\<close> has no default: leaving it out is the error \<open>missing\<close>,
  listed after the errors of \<^verbatim>\<open>content\<close>, which is declared before it.
\<close>

definition ToolPromptMessage_init ::
  "PromptMessageRole option \<Rightarrow> raw_content option \<Rightarrow> string option \<Rightarrow> string option \<Rightarrow>
   error + ToolPromptMessage" where
  "ToolPromptMessage_init role_arg content_arg name_arg tool_call_id_arg =
     (let c = content_field content_arg;
          i = validate_str (map_option PyStr tool_call_id_arg) None
      in case (c, i) of
           (Inr c', Inr i') \<Rightarrow>
             Inr \<lparr>role = role_field TOOL role_arg, content = c', name = name_arg,
                  tool_call_id = i'\<rparr>
         | _ \<Rightarrow> Inl (ValidationError ''ToolPromptMessage''
                  ((case c of Inl errs \<Rightarrow> errs | Inr x \<Rightarrow> []) @
                   field_errors ''tool_call_id'' i)))"

subsection \<open>Vocabulary of the properties\<close>

text \<open>
  What one element of a sequence contributes to the result: the outcome of the loop on
  the element alone, and nothing when its constructor raises. A dict that reaches a
  constructor carries its tag as a string, which the field \<^verbatim>\<open>type\<close> rejects.
\<close>

definition kept :: "content_item \<Rightarrow> PromptMessageContent list" where
  "kept x = (case transform_loop [x] [] of Inl e \<Rightarrow> [] | Inr zs \<Rightarrow> zs)"

text \<open>The elements of a sequence that are typed content objects already, in order.\<close>

fun typed_elements :: "content_item list \<Rightarrow> PromptMessageContent list" where
  "typed_elements [] = []"
| "typed_elements (Typed c # xs) = c # typed_elements xs"
| "typed_elements (Untyped kw # xs) = typed_elements xs"

text \<open>
  The fields the specification calls required: \<^verbatim>\<open>data\<close> of a text content,
  \<^verbatim>\<open>format\<close> and \<^verbatim>\<open>mime_type\<close> of a multi-modal one; and the class that a type tag
  selects.
\<close>

fun required_fields :: "PromptMessageContentType \<Rightarrow> string list" where
  "required_fields TEXT = [''data'']"
| "required_fields k = [''format'', ''mime_type'']"

fun class_name :: "PromptMessageContentType \<Rightarrow> string" where
  "class_name TEXT = ''TextPromptMessageContent''"
| "class_name IMAGE = ''ImagePromptMessageContent''"
| "class_name AUDIO = ''AudioPromptMessageContent''"
| "class_name VIDEO = ''VideoPromptMessageContent''"
| "class_name DOCUMENT = ''DocumentPromptMessageContent''"

section \<open>Properties\<close>

subsection \<open>Parsing a role\<close>

lemma value_of_role_value: "value_of (role_value r) = Inr r"
  by (cases r) (simp_all add: value_of_def PromptMessageRole_members_def)

lemma value_of_Inr_value: "value_of v = Inr r \<Longrightarrow> role_value r = v"
  by (auto simp: value_of_def PromptMessageRole_members_def split: if_splits)

lemma value_of_other:
  "v \<notin> set (map role_value PromptMessageRole_members) \<Longrightarrow>
   value_of v = Inl (ValueError (''invalid prompt message type value '' @ v))"
  by (auto simp: value_of_def PromptMessageRole_members_def)

text \<open>
  Claim C6. \<open>value_of v\<close> returns a role exactly when \<open>v\<close> is one of the four strings
  \<open>system\<close>, \<open>user\<close>, \<open>assistant\<close>, \<open>tool\<close>; the role returned then has \<open>v\<close> as its
  value (round trip); on every other string it raises the \<^verbatim>\<open>ValueError\<close> naming \<open>v\<close>.
\<close>

theorem value_of_canonical:
  "((\<exists>r. value_of v = Inr r) \<longleftrightarrow> v \<in> {''system'', ''user'', ''assistant'', ''tool''}) \<and>
   (\<forall>r. value_of v = Inr r \<longrightarrow> role_value r = v) \<and>
   (v \<notin> {''system'', ''user'', ''assistant'', ''tool''} \<longrightarrow>
      value_of v = Inl (ValueError (''invalid prompt message type value '' @ v)))"
proof (intro conjI allI impI)
  show "(\<exists>r. value_of v = Inr r) \<longleftrightarrow> v \<in> {''system'', ''user'', ''assistant'', ''tool''}"
  proof
    assume "\<exists>r. value_of v = Inr r"
    then obtain r where "value_of v = Inr r" ..
    then have "role_value r = v" by (rule value_of_Inr_value)
    then show "v \<in> {''system'', ''user'', ''assistant'', ''tool''}"
      by (cases r) auto
  next
    assume "v \<in> {''system'', ''user'', ''assistant'', ''tool''}"
    then have "v \<in> range role_value"
      by (auto intro: range_eqI [of _ _ SYSTEM] range_eqI [of _ _ USER]
          range_eqI [of _ _ ASSISTANT] range_eqI [of _ _ TOOL])
    then obtain r where "v = role_value r" ..
    then show "\<exists>r. value_of v = Inr r"
      using value_of_role_value by blast
  qed
next
  fix r assume "value_of v = Inr r"
  then show "role_value r = v" by (rule value_of_Inr_value)
next
  assume "v \<notin> {''system'', ''user'', ''assistant'', ''tool''}"
  then show "value_of v = Inl (ValueError (''invalid prompt message type value '' @ v))"
    by (intro value_of_other) (simp add: PromptMessageRole_members_def)
qed

theorem value_of_canonical_witness:
  "value_of ''assistant'' = Inr ASSISTANT \<and> role_value ASSISTANT = ''assistant'' \<and>
   value_of ''bogus'' = Inl (ValueError ''invalid prompt message type value bogus'')"
  using value_of_canonical [of "''assistant''"] value_of_canonical [of "''bogus''"]
  by (simp add: value_of_def PromptMessageRole_members_def)

subsection \<open>The data of a multi-modal content\<close>

text \<open>
  Claim C5. For every multi-modal content (image, audio, video, document: every
  extension of the multi-modal record) \<open>data\<close> is the \<open>url\<close> when that is a non-empty
  string, and otherwise the string \<open>data:\<close> + \<open>mime_type\<close> + \<open>;base64,\<close> +
  \<open>base64_data\<close>.
\<close>

theorem data_url_or_data_uri:
  "(url c \<noteq> [] \<longrightarrow> data c = url c) \<and>
   (url c = [] \<longrightarrow> data c = ''data:'' @ mime_type c @ '';base64,'' @ base64_data c)"
  by (simp add: data_def)

theorem data_url_or_data_uri_witness:
  "data \<lparr>format = ''png'', base64_data = ''AAAA'', url = [], mime_type = ''image/png'',
      detail = LOW\<rparr> = ''data:image/png;base64,AAAA'' \<and>
   data \<lparr>format = ''png'', base64_data = ''AAAA'', url = ''http://x/y.png'',
      mime_type = ''image/png''\<rparr> = ''http://x/y.png''"
  using
    data_url_or_data_uri [of "\<lparr>format = ''png'', base64_data = ''AAAA'', url = [],
      mime_type = ''image/png'', detail = LOW\<rparr>"]
    data_url_or_data_uri [of "\<lparr>format = ''png'', base64_data = ''AAAA'',
      url = ''http://x/y.png'', mime_type = ''image/png''\<rparr>"]
  by simp

subsection \<open>The id of a tool call\<close>




subsection \<open>Emptiness of assistant and tool messages\<close>

text \<open>What the two overriding methods compute.\<close>

lemma AssistantPromptMessage_is_empty_eq:
  "AssistantPromptMessage_is_empty m = (PromptMessage_is_empty m \<or> tool_calls m \<noteq> [])"
  by (auto simp: AssistantPromptMessage_is_empty_def)

lemma ToolPromptMessage_is_empty_eq:
  "ToolPromptMessage_is_empty m = (PromptMessage_is_empty m \<or> tool_call_id m \<noteq> [])"
  by (auto simp: ToolPromptMessage_is_empty_def)

text \<open>
  Claim C1 says that an assistant message is empty exactly when its content is empty
  and it has no tool call. The method returns \<open>True\<close> for the assistant message built
  with \<^verbatim>\<open>content=None\<close> and one tool call.
\<close>

theorem AssistantPromptMessage_is_empty_with_tool_call:
  "AssistantPromptMessage_init None (Some RawNone) None
     (Some [\<lparr>tool_call_ident = ''1'', tool_call_type = ''function'',
       tool_call_function = \<lparr>function_name = ''f'', arguments = ''{}''\<rparr>\<rparr>]) =
     Inr \<lparr>role = ASSISTANT, content = Some (ListContent []), name = None,
       tool_calls = [\<lparr>tool_call_ident = ''1'', tool_call_type = ''function'',
         tool_call_function = \<lparr>function_name = ''f'', arguments = ''{}''\<rparr>\<rparr>]\<rparr> \<and>
   AssistantPromptMessage_is_empty
     \<lparr>role = ASSISTANT, content = Some (ListContent []), name = None,
       tool_calls = [\<lparr>tool_call_ident = ''1'', tool_call_type = ''function'',
         tool_call_function = \<lparr>function_name = ''f'', arguments = ''{}''\<rparr>\<rparr>]\<rparr> = True"
  by (simp add: AssistantPromptMessage_init_def content_field_def transform_content_def
      role_field_def AssistantPromptMessage_is_empty_def PromptMessage_is_empty_def)

text \<open>
  Claim C2 says that a tool message is empty exactly when its content is empty and its
  \<open>tool_call_id\<close> is empty. The method returns \<open>True\<close> for the tool message built with
  \<^verbatim>\<open>content=None\<close> and the \<open>tool_call_id\<close> \<open>call_1\<close>.
\<close>

theorem ToolPromptMessage_is_empty_with_tool_call_id:
  "ToolPromptMessage_init None (Some RawNone) None (Some ''call_1'') =
     Inr \<lparr>role = TOOL, content = Some (ListContent []), name = None,
       tool_call_id = ''call_1''\<rparr> \<and>
   ToolPromptMessage_is_empty
     \<lparr>role = TOOL, content = Some (ListContent []), name = None,
       tool_call_id = ''call_1''\<rparr> = True"
  by (simp add: ToolPromptMessage_init_def content_field_def transform_content_def
      role_field_def ToolPromptMessage_is_empty_def PromptMessage_is_empty_def)

subsection \<open>The role of a message\<close>

text \<open>
  Claim C3 says that the role of a constructed message is the canonical role of its
  class whatever role the caller passes. A \<^verbatim>\<open>UserPromptMessage\<close> built with the role
  \<open>SYSTEM\<close> has the role \<open>SYSTEM\<close>.
\<close>

theorem UserPromptMessage_role_counterexample:
  "UserPromptMessage_init (Some SYSTEM) None None =
     Inr \<lparr>role = SYSTEM, content = None, name = None\<rparr> \<and>
   role \<lparr>role = SYSTEM, content = None, name = None\<rparr> \<noteq> USER"
  by (simp add: UserPromptMessage_init_def content_field_def role_field_def)

text \<open>
  Claim C3, amended. The role of a constructed message is the role the caller passes,
  and the canonical role of the class (user, system, assistant, tool) when the caller
  passes none.
\<close>

theorem role_is_argument_or_default:
  "(UserPromptMessage_init r c n = Inr m \<longrightarrow>
      role m = (case r of None \<Rightarrow> USER | Some r' \<Rightarrow> r')) \<and>
   (SystemPromptMessage_init r c n = Inr m \<longrightarrow>
      role m = (case r of None \<Rightarrow> SYSTEM | Some r' \<Rightarrow> r')) \<and>
   (AssistantPromptMessage_init r c n tcs = Inr ma \<longrightarrow>
      role ma = (case r of None \<Rightarrow> ASSISTANT | Some r' \<Rightarrow> r')) \<and>
   (ToolPromptMessage_init r c n i = Inr mt \<longrightarrow>
      role mt = (case r of None \<Rightarrow> TOOL | Some r' \<Rightarrow> r'))"
proof (intro conjI impI)
  assume "UserPromptMessage_init r c n = Inr m"
  then show "role m = (case r of None \<Rightarrow> USER | Some r' \<Rightarrow> r')"
    by (auto simp: UserPromptMessage_init_def role_field_def split: sum.splits)
next
  assume "SystemPromptMessage_init r c n = Inr m"
  then show "role m = (case r of None \<Rightarrow> SYSTEM | Some r' \<Rightarrow> r')"
    by (auto simp: SystemPromptMessage_init_def role_field_def split: sum.splits)
next
  assume "AssistantPromptMessage_init r c n tcs = Inr ma"
  then show "role ma = (case r of None \<Rightarrow> ASSISTANT | Some r' \<Rightarrow> r')"
    by (auto simp: AssistantPromptMessage_init_def role_field_def split: sum.splits)
next
  assume "ToolPromptMessage_init r c n i = Inr mt"
  then show "role mt = (case r of None \<Rightarrow> TOOL | Some r' \<Rightarrow> r')"
    by (auto simp: ToolPromptMessage_init_def role_field_def Let_def
        split: sum.splits option.splits)
qed

theorem role_is_argument_or_default_witness:
  "UserPromptMessage_init None (Some (RawStr ''hi'')) None =
     Inr \<lparr>role = USER, content = Some (StrContent ''hi''), name = None\<rparr> \<and>
   role \<lparr>role = USER, content = Some (StrContent ''hi''), name = None\<rparr> = USER \<and>
   ToolPromptMessage_init (Some ASSISTANT) None None (Some ''call_1'') =
     Inr \<lparr>role = ASSISTANT, content = None, name = None, tool_call_id = ''call_1''\<rparr> \<and>
   role \<lparr>role = ASSISTANT, content = None, name = None, tool_call_id = ''call_1''\<rparr> = ASSISTANT"
proof -
  have u: "UserPromptMessage_init None (Some (RawStr ''hi'')) None =
      Inr \<lparr>role = USER, content = Some (StrContent ''hi''), name = None\<rparr>"
    by (simp add: UserPromptMessage_init_def content_field_def transform_content_def
        role_field_def)
  have t: "ToolPromptMessage_init (Some ASSISTANT) None None (Some ''call_1'') =
      Inr \<lparr>role = ASSISTANT, content = None, name = None, tool_call_id = ''call_1''\<rparr>"
    by (simp add: ToolPromptMessage_init_def content_field_def role_field_def)
  from role_is_argument_or_default [of None "Some (RawStr ''hi'')" None
      "\<lparr>role = USER, content = Some (StrContent ''hi''), name = None\<rparr>"] u
  have "role \<lparr>role = USER, content = Some (StrContent ''hi''), name = None\<rparr> = USER"
    by simp
  moreover
  from role_is_argument_or_default [where r = "Some ASSISTANT" and c = None and n = None
      and i = "Some ''call_1''" and mt = "\<lparr>role = ASSISTANT, content = None, name = None,
        tool_call_id = ''call_1''\<rparr>"] t
  have "role \<lparr>role = ASSISTANT, content = None, name = None, tool_call_id = ''call_1''\<rparr> =
      ASSISTANT"
    by simp
  ultimately show ?thesis using u t by simp
qed

subsection \<open>Content given as None\<close>

text \<open>
  Claim C10. A message of any of the four classes that is constructed with
  \<^verbatim>\<open>content=None\<close> passed explicitly is constructed without error, stores the empty
  list in \<open>content\<close> rather than \<^verbatim>\<open>None\<close>, and is empty by the base rule
  \<open>PromptMessage_is_empty\<close>.
\<close>

theorem content_None_stored_as_empty_list:
  "(\<exists>m. UserPromptMessage_init r (Some RawNone) n = Inr m \<and>
      content m = Some (ListContent []) \<and> PromptMessage_is_empty m) \<and>
   (\<exists>m. SystemPromptMessage_init r (Some RawNone) n = Inr m \<and>
      content m = Some (ListContent []) \<and> PromptMessage_is_empty m) \<and>
   (\<exists>m. AssistantPromptMessage_init r (Some RawNone) n tcs = Inr m \<and>
      content m = Some (ListContent []) \<and> PromptMessage_is_empty m) \<and>
   (\<exists>m. ToolPromptMessage_init r (Some RawNone) n (Some i) = Inr m \<and>
      content m = Some (ListContent []) \<and> PromptMessage_is_empty m)"
  by (simp add: UserPromptMessage_init_def SystemPromptMessage_init_def
      AssistantPromptMessage_init_def ToolPromptMessage_init_def content_field_def
      transform_content_def PromptMessage_is_empty_def)

subsection \<open>The loop of the content validator\<close>

text \<open>
  One round of the loop: the first element is handled as it would be alone, and its
  contribution is appended to the accumulator before the rest is handled.
\<close>

lemma transform_loop_Cons:
  "transform_loop (x # rest) result =
     (case transform_loop [x] [] of
        Inl e \<Rightarrow> Inl e
      | Inr zs \<Rightarrow> transform_loop rest (result @ zs))"
  by (cases x) (simp_all split: sum.splits)

lemma transform_loop_append:
  "transform_loop (xs @ ys) acc =
     (case transform_loop xs acc of Inl e \<Rightarrow> Inl e | Inr r \<Rightarrow> transform_loop ys r)"
proof (induction xs arbitrary: acc)
  case Nil
  show ?case by simp
next
  case (Cons x xs)
  have "transform_loop ((x # xs) @ ys) acc =
      (case transform_loop [x] [] of Inl e \<Rightarrow> Inl e
       | Inr zs \<Rightarrow> transform_loop (xs @ ys) (acc @ zs))"
    using transform_loop_Cons [of x "xs @ ys" acc] by simp
  also have "\<dots> = (case transform_loop [x] [] of Inl e \<Rightarrow> Inl e
       | Inr zs \<Rightarrow> (case transform_loop xs (acc @ zs) of Inl e \<Rightarrow> Inl e
                     | Inr r \<Rightarrow> transform_loop ys r))"
    by (simp add: Cons.IH cong: sum.case_cong)
  also have "\<dots> = (case transform_loop (x # xs) acc of Inl e \<Rightarrow> Inl e
       | Inr r \<Rightarrow> transform_loop ys r)"
    by (subst transform_loop_Cons [of x xs acc]) (simp split: sum.splits)
  finally show ?case .
qed

lemma transform_loop_result:
  "transform_loop xs acc = Inr ys \<Longrightarrow> ys = acc @ concat (map kept xs)"
proof (induction xs arbitrary: acc)
  case Nil
  then show ?case by simp
next
  case (Cons x xs)
  from Cons.prems obtain zs where
    x: "transform_loop [x] [] = Inr zs" and rest: "transform_loop xs (acc @ zs) = Inr ys"
    by (subst (asm) transform_loop_Cons) (auto split: sum.splits)
  from Cons.IH [OF rest] x show ?case
    by (simp add: kept_def)
qed

lemma kept_Typed: "kept (Typed c) = [c]"
  by (simp add: kept_def)

lemma kept_length: "length (kept x) \<le> 1"
  by (cases x) (auto simp: kept_def split: sum.splits)

lemma subseq_typed_elements: "subseq (typed_elements xs) (concat (map kept xs))"
proof (induction xs rule: typed_elements.induct)
  case 1
  show ?case by simp
next
  case (2 c xs)
  then show ?case by (simp add: kept_Typed)
next
  case (3 kw xs)
  then show ?case by (simp add: list_emb_append2)
qed

text \<open>
  A dict with one of the five tags reaches the constructor of its class with the tag
  as a string, which the field \<^verbatim>\<open>type\<close> rejects: the loop ends with the error of
  that class, so a list that the validator returns holds the typed elements only.
\<close>

lemma TextPromptMessageContent_init_tagged:
  "kw ''type'' = Some v \<Longrightarrow>
   \<exists>errs. TextPromptMessageContent_init kw =
     Inl (ValidationError ''TextPromptMessageContent'' errs) \<and> (''type'', literal_error) \<in> set errs"
  by (simp add: TextPromptMessageContent_init_def field_errors_def)

lemma MultiModalPromptMessageContent_init_tagged:
  "kw ''type'' = Some v \<Longrightarrow>
   \<exists>errs. MultiModalPromptMessageContent_init cls k kw = Inl (ValidationError cls errs) \<and>
     (''type'', literal_error) \<in> set errs"
  by (cases "validate_str (kw ''format'') None";
      cases "validate_str (kw ''base64_data'') (Some [])";
      cases "validate_str (kw ''url'') (Some [])";
      cases "validate_str (kw ''mime_type'') None")
     (simp_all add: MultiModalPromptMessageContent_init_def field_errors_def)

lemma ImagePromptMessageContent_init_tagged:
  "kw ''type'' = Some v \<Longrightarrow>
   \<exists>errs. ImagePromptMessageContent_init kw =
     Inl (ValidationError ''ImagePromptMessageContent'' errs) \<and> (''type'', literal_error) \<in> set errs"
  by (cases "validate_str (kw ''format'') None";
      cases "validate_str (kw ''base64_data'') (Some [])";
      cases "validate_str (kw ''url'') (Some [])";
      cases "validate_str (kw ''mime_type'') None")
     (simp_all add: ImagePromptMessageContent_init_def field_errors_def)

lemma kept_Untyped: "kept (Untyped kw) = []"
proof -
  have "transform_loop [Untyped kw] [] = Inr [] \<or> (\<exists>e. transform_loop [Untyped kw] [] = Inl e)"
    using TextPromptMessageContent_init_tagged [of kw]
      ImagePromptMessageContent_init_tagged [of kw]
      MultiModalPromptMessageContent_init_tagged [of kw _ "''DocumentPromptMessageContent''" DOCUMENT]
      MultiModalPromptMessageContent_init_tagged [of kw _ "''AudioPromptMessageContent''" AUDIO]
      MultiModalPromptMessageContent_init_tagged [of kw _ "''VideoPromptMessageContent''" VIDEO]
    by (auto simp: DocumentPromptMessageContent_init_def AudioPromptMessageContent_init_def
        VideoPromptMessageContent_init_def)
  then show ?thesis
    by (auto simp: kept_def)
qed

lemma concat_kept: "concat (map kept xs) = typed_elements xs"
  by (induction xs rule: typed_elements.induct) (simp_all add: kept_Typed kept_Untyped)

lemma transform_content_typed_elements:
  "transform_content (RawSeq xs) = Inr (ListContent ys) \<Longrightarrow> ys = typed_elements xs"
proof -
  assume "transform_content (RawSeq xs) = Inr (ListContent ys)"
  then have "transform_loop xs [] = Inr ys"
    by (cases "transform_loop xs []") (simp_all add: transform_content_def)
  then show ?thesis
    using transform_loop_result [of xs "[]" ys] by (simp add: concat_kept)
qed

subsection \<open>Unknown content types\<close>

text \<open>
  Claim C4. A dict whose \<open>type\<close> is none of \<open>text\<close>, \<open>image\<close>, \<open>audio\<close>, \<open>video\<close>,
  \<open>document\<close> (or is absent) contributes nothing and raises nothing, wherever it stands
  in the sequence: the validator returns what it returns on the sequence without that
  element, the same list or the same error.
\<close>

theorem unknown_type_dropped:
  assumes "kw ''type'' \<notin> {Some (PyStr ''text''), Some (PyStr ''image''), Some (PyStr ''audio''),
      Some (PyStr ''video''), Some (PyStr ''document'')}"
  shows "transform_content (RawSeq (xs @ Untyped kw # ys)) = transform_content (RawSeq (xs @ ys))"
proof -
  have step: "transform_loop (Untyped kw # ys) r = transform_loop ys r" for r
    using assms by simp
  have "transform_loop (xs @ Untyped kw # ys) [] = transform_loop (xs @ ys) []"
    unfolding transform_loop_append [of xs] step ..
  then show ?thesis
    by (simp add: transform_content_def)
qed

theorem unknown_type_dropped_witness:
  "[''type'' \<mapsto> PyStr ''bogus''] ''type'' \<notin> {Some (PyStr ''text''), Some (PyStr ''image''),
      Some (PyStr ''audio''), Some (PyStr ''video''), Some (PyStr ''document'')} \<and>
   transform_content (RawSeq [Untyped [''type'' \<mapsto> PyStr ''bogus'']]) = Inr (ListContent [])"
proof -
  have h: "[''type'' \<mapsto> PyStr ''bogus''] ''type'' \<notin> {Some (PyStr ''text''),
      Some (PyStr ''image''), Some (PyStr ''audio''), Some (PyStr ''video''),
      Some (PyStr ''document'')}"
    by simp
  have "transform_content (RawSeq ([] @ Untyped [''type'' \<mapsto> PyStr ''bogus''] # [])) =
      transform_content (RawSeq ([] @ []))"
    by (rule unknown_type_dropped [where kw = "[''type'' \<mapsto> PyStr ''bogus'']", OF h])
  then have "transform_content (RawSeq [Untyped [''type'' \<mapsto> PyStr ''bogus'']]) =
      transform_content (RawSeq [])"
    by simp
  also have "\<dots> = Inr (ListContent [])"
    by (simp add: transform_content_def)
  finally show ?thesis using h by simp
qed

subsection \<open>Order of the normalised content\<close>

text \<open>
  Claim C8. When the validator returns a list for a sequence, the list is the
  concatenation, in the order of the input, of what each element contributes, which
  is at most one content; an element that is a typed content contributes itself, so
  the typed elements of the input stand in the result unchanged and in their order.
\<close>

theorem transform_content_order:
  assumes "transform_content (RawSeq xs) = Inr (ListContent ys)"
  shows "ys = concat (map kept xs) \<and> (\<forall>x \<in> set xs. length (kept x) \<le> 1) \<and>
    (\<forall>c. kept (Typed c) = [c]) \<and> subseq (typed_elements xs) ys"
proof -
  from assms have "transform_loop xs [] = Inr ys"
    by (cases "transform_loop xs []") (simp_all add: transform_content_def)
  then have ys: "ys = concat (map kept xs)"
    using transform_loop_result [of xs "[]" ys] by simp
  with subseq_typed_elements [of xs] have "subseq (typed_elements xs) ys"
    by simp
  with ys kept_length show ?thesis
    by (auto simp: kept_Typed)
qed

theorem transform_content_order_witness:
  "transform_content (RawSeq
     [Typed (TextContent \<lparr>text_data = ''a''\<rparr>),
      Untyped [''type'' \<mapsto> PyStr ''bogus''],
      Typed (ImageContent \<lparr>format = ''png'', base64_data = ''AAAA'', url = [],
        mime_type = ''image/png'', detail = HIGH\<rparr>),
      Untyped Map.empty,
      Typed (TextContent \<lparr>text_data = ''c''\<rparr>)]) =
     Inr (ListContent
       [TextContent \<lparr>text_data = ''a''\<rparr>,
        ImageContent \<lparr>format = ''png'', base64_data = ''AAAA'', url = [],
          mime_type = ''image/png'', detail = HIGH\<rparr>,
        TextContent \<lparr>text_data = ''c''\<rparr>]) \<and>
   subseq
     (typed_elements
       [Typed (TextContent \<lparr>text_data = ''a''\<rparr>),
        Untyped [''type'' \<mapsto> PyStr ''bogus''],
        Typed (ImageContent \<lparr>format = ''png'', base64_data = ''AAAA'', url = [],
          mime_type = ''image/png'', detail = HIGH\<rparr>),
        Untyped Map.empty,
        Typed (TextContent \<lparr>text_data = ''c''\<rparr>)])
     [TextContent \<lparr>text_data = ''a''\<rparr>,
      ImageContent \<lparr>format = ''png'', base64_data = ''AAAA'', url = [],
        mime_type = ''image/png'', detail = HIGH\<rparr>,
      TextContent \<lparr>text_data = ''c''\<rparr>]"
proof -
  have h: "transform_content (RawSeq
     [Typed (TextContent \<lparr>text_data = ''a''\<rparr>),
      Untyped [''type'' \<mapsto> PyStr ''bogus''],
      Typed (ImageContent \<lparr>format = ''png'', base64_data = ''AAAA'', url = [],
        mime_type = ''image/png'', detail = HIGH\<rparr>),
      Untyped Map.empty,
      Typed (TextContent \<lparr>text_data = ''c''\<rparr>)]) =
     Inr (ListContent
       [TextContent \<lparr>text_data = ''a''\<rparr>,
        ImageContent \<lparr>format = ''png'', base64_data = ''AAAA'', url = [],
          mime_type = ''image/png'', detail = HIGH\<rparr>,
        TextContent \<lparr>text_data = ''c''\<rparr>])"
    by (simp add: transform_content_def)
  from transform_content_order [OF h] h show ?thesis
    by blast
qed

subsection \<open>Missing required fields\<close>

lemma TextPromptMessageContent_init_missing:
  assumes "kw ''data'' = None"
  shows "\<exists>errs. TextPromptMessageContent_init kw =
      Inl (ValidationError ''TextPromptMessageContent'' errs) \<and> (''data'', missing) \<in> set errs"
  using assms
  by (cases "validate_literal TEXT (kw ''type'')")
     (simp_all add: TextPromptMessageContent_init_def field_errors_def)

lemma MultiModalPromptMessageContent_init_missing:
  assumes "f \<in> {''format'', ''mime_type''}" and "kw f = None"
  shows "\<exists>errs. MultiModalPromptMessageContent_init cls k kw = Inl (ValidationError cls errs) \<and>
     (f, missing) \<in> set errs"
proof -
  from assms consider
    "f = ''format''" "kw ''format'' = None" | "f = ''mime_type''" "kw ''mime_type'' = None"
    by auto
  then show ?thesis
  proof cases
    case 1
    then show ?thesis
      by (simp add: MultiModalPromptMessageContent_init_def field_errors_def)
  next
    case 2
    then show ?thesis
      by (cases "validate_str (kw ''format'') None";
          cases "validate_str (kw ''base64_data'') (Some [])";
          cases "validate_str (kw ''url'') (Some [])")
         (simp_all add: MultiModalPromptMessageContent_init_def field_errors_def)
  qed
qed

lemma ImagePromptMessageContent_init_missing:
  assumes "f \<in> {''format'', ''mime_type''}" and "kw f = None"
  shows "\<exists>errs. ImagePromptMessageContent_init kw =
      Inl (ValidationError ''ImagePromptMessageContent'' errs) \<and> (f, missing) \<in> set errs"
proof -
  from assms consider
    "f = ''format''" "kw ''format'' = None" | "f = ''mime_type''" "kw ''mime_type'' = None"
    by auto
  then show ?thesis
  proof cases
    case 1
    then show ?thesis
      by (simp add: ImagePromptMessageContent_init_def field_errors_def)
  next
    case 2
    then show ?thesis
      by (cases "validate_str (kw ''format'') None";
          cases "validate_str (kw ''base64_data'') (Some [])";
          cases "validate_str (kw ''url'') (Some [])")
         (simp_all add: ImagePromptMessageContent_init_def field_errors_def)
  qed
qed

text \<open>
  Claim C9. For a dict that carries one of the five type tags, the construction of the
  content of that type fails when a required field is absent (\<open>data\<close> for text,
  \<open>format\<close> or \<open>mime_type\<close> for image, audio, video and document): the validator
  raises the \<^verbatim>\<open>ValidationError\<close> of the class selected by the tag, and the error lists
  the absent field as \<open>missing\<close> (beside the \<open>literal_error\<close> of the tag itself).
\<close>

theorem missing_required_field:
  assumes "kw ''type'' = Some (PyStr (content_type_value k))"
    and "f \<in> set (required_fields k)"
    and "kw f = None"
  shows "\<exists>errs. transform_content (RawSeq (Untyped kw # rest)) =
      Inl (ValidationError (class_name k) errs) \<and> (f, missing) \<in> set errs"
proof (cases k)
  case TEXT
  with assms have "kw ''data'' = None" and f: "f = ''data''" by simp_all
  from TextPromptMessageContent_init_missing [of kw, OF this(1)] f TEXT assms(1) show ?thesis
    by (auto simp: transform_content_def)
next
  case IMAGE
  with assms have "f \<in> {''format'', ''mime_type''}" by simp
  from ImagePromptMessageContent_init_missing [of f kw, OF this assms(3)] IMAGE assms(1)
  show ?thesis
    by (auto simp: transform_content_def)
next
  case AUDIO
  with assms have "f \<in> {''format'', ''mime_type''}" by simp
  from MultiModalPromptMessageContent_init_missing [of f kw "''AudioPromptMessageContent''" AUDIO,
      OF this assms(3)] AUDIO assms(1)
  show ?thesis
    by (auto simp: transform_content_def AudioPromptMessageContent_init_def)
next
  case VIDEO
  with assms have "f \<in> {''format'', ''mime_type''}" by simp
  from MultiModalPromptMessageContent_init_missing [of f kw "''VideoPromptMessageContent''" VIDEO,
      OF this assms(3)] VIDEO assms(1)
  show ?thesis
    by (auto simp: transform_content_def VideoPromptMessageContent_init_def)
next
  case DOCUMENT
  with assms have "f \<in> {''format'', ''mime_type''}" by simp
  from MultiModalPromptMessageContent_init_missing [of f kw "''DocumentPromptMessageContent''" DOCUMENT,
      OF this assms(3)] DOCUMENT assms(1)
  show ?thesis
    by (auto simp: transform_content_def DocumentPromptMessageContent_init_def)
qed

theorem missing_required_field_witness:
  "[''type'' \<mapsto> PyStr ''image'', ''format'' \<mapsto> PyStr ''png''] ''type'' =
     Some (PyStr (content_type_value IMAGE)) \<and>
   ''mime_type'' \<in> set (required_fields IMAGE) \<and>
   [''type'' \<mapsto> PyStr ''image'', ''format'' \<mapsto> PyStr ''png''] ''mime_type'' = None \<and>
   transform_content
       (RawSeq [Untyped [''type'' \<mapsto> PyStr ''image'', ''format'' \<mapsto> PyStr ''png'']]) =
      Inl (ValidationError ''ImagePromptMessageContent''
        [(''mime_type'', missing), (''type'', literal_error)]) \<and>
   (\<exists>errs. transform_content
       (RawSeq [Untyped [''type'' \<mapsto> PyStr ''image'', ''format'' \<mapsto> PyStr ''png'']]) =
      Inl (ValidationError ''ImagePromptMessageContent'' errs) \<and>
      (''mime_type'', missing) \<in> set errs)"
proof -
  let ?kw = "[''type'' \<mapsto> PyStr ''image'', ''format'' \<mapsto> PyStr ''png'']"
  have h1: "?kw ''type'' = Some (PyStr (content_type_value IMAGE))" by simp
  have h2: "''mime_type'' \<in> set (required_fields IMAGE)" by simp
  have h3: "?kw ''mime_type'' = None" by simp
  have v: "transform_content (RawSeq [Untyped ?kw]) =
      Inl (ValidationError ''ImagePromptMessageContent''
        [(''mime_type'', missing), (''type'', literal_error)])"
    by (simp add: transform_content_def ImagePromptMessageContent_init_def field_errors_def)
  from missing_required_field [of ?kw IMAGE "''mime_type''" "[]", OF h1 h2 h3] h1 h2 h3 v
  show ?thesis
    by simp
qed

end
